theory Spec2Isabelle
  imports Complex_Main "HOL-Library.Multiset" "HOL-Library.Char_ord" "HOL-Library.List_Lexorder"
begin

section \<open>Configuration\<close>

text \<open>
  The module-level configuration variables of \<^verbatim>\<open>run.py\<close>. Seconds and frame rates are
  Python floats in the program; a float is held as the real number it denotes, and the
  operations on floats are rounded where the program computes them. \<^verbatim>\<open>BATCH_SIZE\<close> and
  \<^verbatim>\<open>STAGGER_DELAY\<close> may be set to an integer or to a float. The two argument strings
  \<^verbatim>\<open>ESRGAN_EXTRA_ARGS\<close> and \<^verbatim>\<open>FFMPEG_REASSEMBLY_ARGS\<close> are held as the token list that
  \<^verbatim>\<open>s.strip().split()\<close> yields (the empty list for a blank string, which is the case in
  which the program extends the command by nothing).
\<close>

record config =
  MAX_CONCURRENT_BATCHES :: nat
  MODEL_NAME :: string
  STAGGER_DELAY :: real
  ESRGAN_SCALE :: string
  ESRGAN_TILE :: string
  ESRGAN_EXTRA_ARGS :: "string list"
  BATCH_SIZE :: real
  FFMPEG_REASSEMBLY_ARGS :: "string list"
  FINAL_FILE_FORMAT_OVERRIDE :: string

definition default_config :: config where
  "default_config =
     \<lparr> MAX_CONCURRENT_BATCHES = 5,
       MODEL_NAME = ''realesr-animevideov3-x2'',
       STAGGER_DELAY = 10,
       ESRGAN_SCALE = ''2'',
       ESRGAN_TILE = ''1920'',
       ESRGAN_EXTRA_ARGS = [],
       BATCH_SIZE = 20,
       FFMPEG_REASSEMBLY_ARGS = [''-c:v'', ''libx265'', ''-pix_fmt'', ''yuv420p''],
       FINAL_FILE_FORMAT_OVERRIDE = ''.mkv'' \<rparr>"


section \<open>Numbers\<close>

text \<open>
  Python's \<^verbatim>\<open>round(x)\<close> on a float: the nearest integer, a tie going to the even one.
\<close>

definition py_round :: "real \<Rightarrow> int" where
  "py_round x =
     (let f = \<lfloor>x\<rfloor>; d = x - of_int f
      in if d < 1 / 2 then f
         else if 1 / 2 < d then f + 1
         else if even f then f else f + 1)"

text \<open>
  Seconds and frame rates are Python floats, that is IEEE-754 doubles. A float is held as
  the real number it denotes, and an arithmetic operation of the source on floats is the
  exact operation followed by \<open>round_double\<close>: rounding to the nearest number with a
  53-bit significand, a tie going to the even significand. Overflow and subnormal numbers
  are not modelled; the floats of the program are seconds and frames per second.

  \<open>bit_length\<close> is \<^verbatim>\<open>int.bit_length\<close> on non-negative integers, and \<open>binade x\<close> is the
  exponent \<open>e\<close> with \<open>2^e \<le> |x| < 2^(e+1)\<close>, for \<open>x \<noteq> 0\<close>.
\<close>

function bit_length :: "int \<Rightarrow> int" where
  "bit_length n = (if n \<le> 0 then 0 else 1 + bit_length (n div 2))"
  by pat_completeness auto
termination
  by (relation "measure nat") auto

declare bit_length.simps [simp del]

definition binade :: "real \<Rightarrow> int" where
  "binade x =
     (if 1 \<le> \<bar>x\<bar> then bit_length \<lfloor>\<bar>x\<bar>\<rfloor> - 1
      else - bit_length (\<lceil>1 / \<bar>x\<bar>\<rceil> - 1))"

definition round_double :: "real \<Rightarrow> real" where
  "round_double x =
     (if x = 0 then 0
      else (let q = 2 powi (binade x - 52)
            in real_of_int (py_round (x / q)) * q))"


section \<open>Batch planning (\<^verbatim>\<open>process_video\<close>, lines 479-484 and 526-529)\<close>

text \<open>
  \<^verbatim>\<open>if BATCH_SIZE == 0: batch_duration = duration; num_batches = 1\<close>
  \<^verbatim>\<open>else: batch_duration = BATCH_SIZE; num_batches = math.ceil(duration / BATCH_SIZE)\<close>
  The quotient is a float division, so \<^verbatim>\<open>math.ceil\<close> is applied to the rounded quotient.
\<close>

definition batch_duration :: "real \<Rightarrow> real \<Rightarrow> real" where
  "batch_duration batch_size duration = (if batch_size = 0 then duration else batch_size)"

definition num_batches :: "real \<Rightarrow> real \<Rightarrow> int" where
  "num_batches batch_size duration =
     (if batch_size = 0 then 1 else \<lceil>round_double (duration / batch_size)\<rceil>)"

text \<open>
  The arguments that the submission loop hands to \<^verbatim>\<open>process_batch\<close> for one batch:
  \<^verbatim>\<open>start_time_batch = batch_index * batch_duration\<close> and
  \<^verbatim>\<open>current_duration = min(batch_duration, duration - start_time_batch)\<close>; the product
  and the difference are rounded. (With an integer \<^verbatim>\<open>BATCH_SIZE\<close> the product is an exact
  integer in the source; it is the same number here as long as it is below \<open>2^53\<close>.)
\<close>

record BatchSpec =
  spec_index :: nat
  spec_start :: real
  spec_duration :: real

definition batch_spec :: "real \<Rightarrow> real \<Rightarrow> nat \<Rightarrow> BatchSpec" where
  "batch_spec batch_size duration i =
     (let start_time_batch = round_double (real i * batch_duration batch_size duration)
      in \<lparr> spec_index = i,
           spec_start = start_time_batch,
           spec_duration = min (batch_duration batch_size duration)
                             (round_double (duration - start_time_batch)) \<rparr>)"

text \<open>\<^verbatim>\<open>for batch_index in range(num_batches)\<close>: an empty range when the count is not positive.\<close>

definition plan_batches :: "real \<Rightarrow> real \<Rightarrow> BatchSpec list" where
  "plan_batches batch_size duration =
     map (batch_spec batch_size duration) [0 ..< nat (num_batches batch_size duration)]"


section \<open>External effects as values\<close>

text \<open>
  The program works through subprocesses, the file system, sleeps and threads. An effect
  is recorded as an \<open>event\<close>; a function of the model returns its value together with the
  events it performed, in program order. What the outside world answers (whether a
  subprocess succeeds, which files a \<^verbatim>\<open>glob\<close> finds, the clock) is an input of the model.

  An element of an argument vector is a string literal (\<open>S\<close>), \<^verbatim>\<open>str\<close> of an integer
  (\<open>I\<close>), \<^verbatim>\<open>str\<close> of a float (\<open>R\<close>), or the f-string
  \<^verbatim>\<open>color=c=black:s=1280x720:d={duration}\<close> (\<open>Lavfi duration\<close>).
\<close>

datatype arg = S string | I int | R real | Lavfi real

text \<open>
  How \<^verbatim>\<open>subprocess.run(cmd, check=True, ...)\<close> ends: normally, with
  \<^verbatim>\<open>CalledProcessError\<close> (non-zero exit), or with \<^verbatim>\<open>TimeoutExpired\<close> (only the engine call
  passes a timeout).
\<close>

datatype run_result = Completed | NonZeroExit | TimedOut

text \<open>
  Lines of the files the program writes: \<^verbatim>\<open>ffconcat version 1.0\<close>,
  \<^verbatim>\<open>file '<path>'\<close> and \<^verbatim>\<open>duration <seconds>\<close> (printed with six decimals by the
  program, held exactly here).
\<close>

datatype line = Header | FileLine string | DurationLine real

datatype message = BatchException nat | SegmentMissing

text \<open>
  \<open>Run cmd out r\<close>: \<^verbatim>\<open>subprocess.run(cmd)\<close> ended as \<open>r\<close>; \<open>out\<close> is the file or directory
  the command writes to (the last argument of the ffmpeg calls, the \<^verbatim>\<open>-o\<close> directory of the
  engine). \<open>StartPoller\<close>/\<open>StopPoller\<close> are \<^verbatim>\<open>poll_thread.start()\<close> and
  \<^verbatim>\<open>progress_event.set(); poll_thread.join()\<close>. \<open>Submit\<close> is \<^verbatim>\<open>executor.submit\<close>.
  Console output is recorded only for the two messages of the coordinator that the
  properties below speak about.
\<close>

datatype event =
    Makedirs string
  | Run "arg list" string run_result
  | Sleep real
  | Rmtree string
  | Remove string
  | Move string string
  | WriteFile string "line list"
  | UpdateProgress nat
  | StartPoller
  | StopPoller
  | Submit BatchSpec
  | Print message

text \<open>
  The temporary area as the set of paths that exist. A directory is one entry (its frames
  are not tracked one by one); a command that fails is taken to leave no output;
  \<^verbatim>\<open>os.remove\<close> is always guarded by \<^verbatim>\<open>os.path.exists\<close> in the program and
  \<^verbatim>\<open>shutil.rmtree\<close> is called with \<^verbatim>\<open>ignore_errors=True\<close>, so both delete if present.
\<close>

fun fs_step :: "string set \<Rightarrow> event \<Rightarrow> string set" where
  "fs_step fs (Makedirs p) = insert p fs"
| "fs_step fs (Run cmd out r) = (if r = Completed then insert out fs else fs)"
| "fs_step fs (Rmtree p) = fs - {p}"
| "fs_step fs (Remove p) = fs - {p}"
| "fs_step fs (Move src dst) = insert dst (fs - {src})"
| "fs_step fs (WriteFile p ls) = insert p fs"
| "fs_step fs _ = fs"

definition fs_after :: "string set \<Rightarrow> event list \<Rightarrow> string set" where
  "fs_after fs evs = foldl fs_step fs evs"

section \<open>Strings and paths\<close>

text \<open>\<^verbatim>\<open>os.path.join(a, b)\<close>, \<^verbatim>\<open>os.path.basename\<close> and \<^verbatim>\<open>os.path.splitext\<close> of \<^verbatim>\<open>posixpath\<close>.\<close>

definition path_join :: "string \<Rightarrow> string \<Rightarrow> string" where
  "path_join a b =
     (if b \<noteq> [] \<and> hd b = CHR ''/'' then b
      else if a = [] \<or> last a = CHR ''/'' then a @ b
      else a @ ''/'' @ b)"

definition basename :: "string \<Rightarrow> string" where
  "basename p = rev (takeWhile (\<lambda>c. c \<noteq> CHR ''/'') (rev p))"

text \<open>
  \<^verbatim>\<open>splitext\<close>: the extension starts at the last dot of the last path component, unless
  only dots precede it there.
\<close>

definition splitext :: "string \<Rightarrow> string \<times> string" where
  "splitext p =
     (let b = basename p;
          e = rev (takeWhile (\<lambda>c. c \<noteq> CHR ''.'') (rev b))
      in if CHR ''.'' \<in> set b \<and> (\<exists>c \<in> set (take (length b - length e - 1) b). c \<noteq> CHR ''.'')
         then (take (length p - length e - 1) p, CHR ''.'' # e)
         else (p, []))"

text \<open>\<^verbatim>\<open>str.lower()\<close> on ASCII letters (other characters are left as they are).\<close>

definition lower_char :: "char \<Rightarrow> char" where
  "lower_char c =
     (case map_of (zip ''ABCDEFGHIJKLMNOPQRSTUVWXYZ'' ''abcdefghijklmnopqrstuvwxyz'') c of
        Some l \<Rightarrow> l
      | None \<Rightarrow> c)"

definition lower :: "string \<Rightarrow> string" where
  "lower s = map lower_char s"

text \<open>\<^verbatim>\<open>s.replace('\\', '\\\\')\<close>: every backslash is doubled.\<close>

definition escape_backslashes :: "string \<Rightarrow> string" where
  "escape_backslashes s = concat (map (\<lambda>c. if c = CHR 0x5C then [c, c] else [c]) s)"

text \<open>\<^verbatim>\<open>str(n)\<close> for a non-negative integer.\<close>

definition digit_char :: "nat \<Rightarrow> char" where
  "digit_char d = ''0123456789'' ! d"

fun str_nat :: "nat \<Rightarrow> string" where
  "str_nat n =
     (if n < 10 then [digit_char n]
      else str_nat (n div 10) @ [digit_char (n mod 10)])"

declare str_nat.simps [simp del]

text \<open>
  \<^verbatim>\<open>s.split(sep)\<close> for a non-empty separator: the pieces between the occurrences of
  \<open>sep\<close>, found from left to right without overlap. \<open>cur\<close> is the piece being read,
  reversed.
\<close>

function split_from :: "string \<Rightarrow> string \<Rightarrow> string \<Rightarrow> string list" where
  "split_from sep cur [] = [rev cur]"
| "split_from sep cur (c # cs) =
     (if sep \<noteq> [] \<and> take (length sep) (c # cs) = sep
      then rev cur # split_from sep [] (drop (length sep) (c # cs))
      else split_from sep (c # cur) cs)"
  by pat_completeness auto
termination
  by (relation "measure (\<lambda>(sep, cur, s). length s)") auto

definition split :: "string \<Rightarrow> string \<Rightarrow> string list" where
  "split s sep = split_from sep [] s"

text \<open>
  \<^verbatim>\<open>int(s)\<close> in base 10 on ASCII text: surrounding whitespace is stripped, one sign is
  allowed, and single underscores may stand between digits. A string with any other
  character (digits outside ASCII included) is a \<^verbatim>\<open>ValueError\<close>, here \<open>None\<close>.
\<close>

definition is_space :: "char \<Rightarrow> bool" where
  "is_space c = (c = CHR '' '' \<or> (CHR 0x09 \<le> c \<and> c \<le> CHR 0x0D) \<or> (CHR 0x1C \<le> c \<and> c \<le> CHR 0x1F))"

definition strip :: "string \<Rightarrow> string" where
  "strip s = rev (dropWhile is_space (rev (dropWhile is_space s)))"

definition is_digit :: "char \<Rightarrow> bool" where
  "is_digit c = (CHR ''0'' \<le> c \<and> c \<le> CHR ''9'')"

definition digit_val :: "char \<Rightarrow> nat" where
  "digit_val c = of_char c - 48"

fun digits_from :: "nat \<Rightarrow> string \<Rightarrow> nat option" where
  "digits_from acc [] = Some acc"
| "digits_from acc [c] = (if is_digit c then Some (10 * acc + digit_val c) else None)"
| "digits_from acc (c # d # ds) =
     (if is_digit c then digits_from (10 * acc + digit_val c) (d # ds)
      else if c = CHR ''_'' \<and> is_digit d then digits_from (10 * acc + digit_val d) ds
      else None)"

definition unsigned_int :: "string \<Rightarrow> nat option" where
  "unsigned_int s =
     (case s of [] \<Rightarrow> None
      | c # cs \<Rightarrow> if is_digit c then digits_from (digit_val c) cs else None)"

definition py_int :: "string \<Rightarrow> int option" where
  "py_int s =
     (case strip s of [] \<Rightarrow> None
      | c # cs \<Rightarrow>
          if c = CHR ''-'' then map_option (\<lambda>n. - int n) (unsigned_int cs)
          else if c = CHR ''+'' then map_option int (unsigned_int cs)
          else map_option int (unsigned_int (c # cs)))"


section \<open>Format normalisation (\<^verbatim>\<open>is_integer_fps\<close>, \<^verbatim>\<open>convert_if_needed\<close>)\<close>

datatype py_error = CalledProcessError

text \<open>
  \<^verbatim>\<open>abs(fps - round(fps)) < tol\<close> with the default \<^verbatim>\<open>tol = 1e-6\<close>, which is the float nearest
  to \<open>10^-6\<close>; the difference is a float subtraction.
\<close>

definition tol :: real where
  "tol = 4722366482869645 / 2 ^ 72"

definition is_integer_fps :: "real \<Rightarrow> bool" where
  "is_integer_fps fps = (\<bar>round_double (fps - real_of_int (py_round fps))\<bar> < tol)"

definition cmd_remux :: "string \<Rightarrow> string \<Rightarrow> arg list" where
  "cmd_remux video_file converted_path =
     [S ''ffmpeg'',
      S ''-hide_banner'', S ''-loglevel'', S ''error'',
      S ''-y'',
      S ''-i'', S video_file,
      S ''-c'', S ''copy'',
      S converted_path]"

definition cmd_encode :: "string \<Rightarrow> int \<Rightarrow> string \<Rightarrow> arg list" where
  "cmd_encode video_file output_fps converted_path =
     [S ''ffmpeg'',
      S ''-hide_banner'', S ''-loglevel'', S ''error'',
      S ''-y'',
      S ''-i'', S video_file,
      S ''-r'', I output_fps,
      S ''-c:v'', S ''libx264'',
      S ''-preset'', S ''fast'',
      S ''-crf'', S ''18'',
      S converted_path]"

text \<open>
  \<open>temp_dir\<close> is \<^verbatim>\<open>tempfile.gettempdir()\<close> and \<open>ffmpeg\<close> is how the one ffmpeg call
  ends, if one is made. Both calls use \<^verbatim>\<open>check=True\<close> outside any \<^verbatim>\<open>try\<close>, so a
  failing call leaves the function by the exception (\<open>Inl\<close>).
\<close>

definition convert_if_needed ::
  "string \<Rightarrow> run_result \<Rightarrow> string \<Rightarrow> real \<Rightarrow> (py_error + string) \<times> event list" where
  "convert_if_needed temp_dir ffmpeg video_file fps =
     (let base_name = fst (splitext (basename video_file));
          input_ext = lower (snd (splitext video_file));
          output_fps = py_round fps;
          converted_path = path_join temp_dir (base_name @ ''_converted.mp4'')
      in if is_integer_fps fps \<and> input_ext = ''.mp4'' then (Inr video_file, [])
         else if is_integer_fps fps then
           (if input_ext \<noteq> ''.mp4'' then
              (if ffmpeg = Completed then Inr converted_path else Inl CalledProcessError,
               [Run (cmd_remux video_file converted_path) converted_path ffmpeg])
            else (Inr video_file, []))
         else
           (if ffmpeg = Completed then Inr converted_path else Inl CalledProcessError,
            [Run (cmd_encode video_file output_fps converted_path) converted_path ffmpeg]))"


section \<open>The batch worker (\<^verbatim>\<open>process_batch\<close>)\<close>

text \<open>
  What the outside world answers to one run of \<^verbatim>\<open>process_batch\<close>: the clock
  (\<^verbatim>\<open>int(time.time())\<close>), how the extraction ends, the names of the files that
  \<^verbatim>\<open>glob\<close> finds in the extraction directory afterwards, how the placeholder synthesis
  ends, how the \<open>k\<close>-th call of the engine ends (counted from 0), the deltas the progress
  poller reports, the names of the files \<^verbatim>\<open>glob\<close> finds in the directory of processed
  frames, and how the reassembling ffmpeg call ends.
\<close>

record batch_env =
  now :: nat
  extract_result :: run_result
  extracted_frames :: "string list"
  placeholder_result :: run_result
  esrgan_result :: "nat \<Rightarrow> run_result"
  polled :: "nat list"
  processed_frames :: "string list"
  concat_result :: run_result

text \<open>
  What \<^verbatim>\<open>process_batch\<close> returns: \<^verbatim>\<open>None\<close>, a path, or the pair
  \<^verbatim>\<open>(result_container, reassembly_thread)\<close>. The pair is held as the value that
  \<^verbatim>\<open>result_container[0]\<close> has once the thread is joined.
\<close>

datatype batch_result = NoSegment | SegmentPath string | Deferred "string option"

text \<open>
  A run of the worker: its return value, the events of the worker thread, and the events
  of the reassembly thread it may have started (empty otherwise).
\<close>

record batch_return =
  result :: batch_result
  events :: "event list"
  deferred_events :: "event list"

definition prepend :: "event list \<Rightarrow> batch_return \<Rightarrow> batch_return" where
  "prepend evs r = r\<lparr>events := evs @ events r\<rparr>"

definition glob_frames :: "string \<Rightarrow> string list \<Rightarrow> string list" where
  "glob_frames dir names = map (path_join dir) names"

definition cmd_extract :: "string \<Rightarrow> real \<Rightarrow> real \<Rightarrow> int \<Rightarrow> string \<Rightarrow> arg list" where
  "cmd_extract video_file start_time duration output_fps extraction_dir =
     [S ''ffmpeg'',
      S ''-hide_banner'', S ''-loglevel'', S ''error'',
      S ''-ss'', R start_time,
      S ''-t'', R duration,
      S ''-y'',
      S ''-i'', S video_file,
      S ''-r'', I output_fps,
      S (path_join extraction_dir ''frame_%06d.png'')]"

text \<open>The four copies of \<^verbatim>\<open>cmd_placeholder\<close> in the source are the same list.\<close>

definition cmd_placeholder :: "real \<Rightarrow> int \<Rightarrow> string \<Rightarrow> arg list" where
  "cmd_placeholder duration output_fps placeholder_segment =
     [S ''ffmpeg'',
      S ''-hide_banner'', S ''-loglevel'', S ''error'',
      S ''-y'',
      S ''-f'', S ''lavfi'',
      S ''-i'', Lavfi duration,
      S ''-r'', I output_fps,
      S ''-c:v'', S ''libx264'',
      S ''-pix_fmt'', S ''yuv420p'',
      S placeholder_segment]"

definition cmd_esrgan :: "config \<Rightarrow> string \<Rightarrow> string \<Rightarrow> string \<Rightarrow> arg list" where
  "cmd_esrgan cfg script_dir extraction_dir processed_dir =
     [S (path_join (path_join script_dir ''bin'') ''realesrgan-ncnn-vulkan''),
      S ''-i'', S extraction_dir,
      S ''-o'', S processed_dir,
      S ''-n'', S (MODEL_NAME cfg),
      S ''-s'', S (ESRGAN_SCALE cfg),
      S ''-t'', S (ESRGAN_TILE cfg)] @ map S (ESRGAN_EXTRA_ARGS cfg)"

definition max_attempts :: nat where
  "max_attempts = 3"

definition emit :: "event list \<Rightarrow> bool \<times> event list \<Rightarrow> bool \<times> event list" where
  "emit evs r = (fst r, evs @ snd r)"

text \<open>
  \<^verbatim>\<open>while attempt < max_attempts and not success\<close>: a call that completes sets
  \<^verbatim>\<open>success\<close>; \<^verbatim>\<open>TimeoutExpired\<close> and \<^verbatim>\<open>CalledProcessError\<close> count an attempt and sleep
  five seconds. The engine has been called \<open>attempt\<close> times when the loop test is
  reached without success, so \<open>outcome attempt\<close> is how the next call ends.
\<close>

function esrgan_loop ::
  "(nat \<Rightarrow> run_result) \<Rightarrow> arg list \<Rightarrow> string \<Rightarrow> nat \<Rightarrow> bool \<Rightarrow> bool \<times> event list" where
  "esrgan_loop outcome cmd out attempt success =
     (if attempt < max_attempts \<and> \<not> success then
        (case outcome attempt of
           Completed \<Rightarrow>
             emit [Run cmd out Completed] (esrgan_loop outcome cmd out attempt True)
         | TimedOut \<Rightarrow>
             emit [Run cmd out TimedOut, Sleep 5]
               (esrgan_loop outcome cmd out (attempt + 1) False)
         | NonZeroExit \<Rightarrow>
             emit [Run cmd out NonZeroExit, Sleep 5]
               (esrgan_loop outcome cmd out (attempt + 1) False))
      else (success, []))"
  by pat_completeness auto
termination
  by (relation "measure (\<lambda>(outcome, cmd, out, attempt, success).
        2 * (max_attempts - attempt) + (if success then 0 else 1))")
     (auto simp: max_attempts_def)

declare esrgan_loop.simps [simp del]

text \<open>
  \<^verbatim>\<open>int(filename.split("frame_")[1].split(".png")[0])\<close>; \<open>None\<close> stands for the
  \<^verbatim>\<open>IndexError\<close> or \<^verbatim>\<open>ValueError\<close> that the loop catches.
\<close>

definition frame_num :: "string \<Rightarrow> int option" where
  "frame_num filename =
     (case split filename ''frame_'' of
        a # piece # rest \<Rightarrow> py_int (hd (split piece ''.png''))
      | _ \<Rightarrow> None)"

text \<open>
  \<^verbatim>\<open>timestamp = (frame_num - 1) / output_fps\<close>, the true division of two integers, which
  is the quotient rounded to the nearest float; and \<^verbatim>\<open>duration_sec = 1.0 / output_fps\<close>.
\<close>

definition timestamp :: "int \<Rightarrow> int \<Rightarrow> real" where
  "timestamp output_fps n = round_double (real_of_int (n - 1) / real_of_int output_fps)"

definition duration_sec :: "int \<Rightarrow> real" where
  "duration_sec output_fps = round_double (1 / real_of_int output_fps)"

text \<open>
  The loop that fills \<^verbatim>\<open>frames\<close>: a file whose number does not parse is left out, and so
  is every file when \<^verbatim>\<open>output_fps\<close> is 0 (the division raises inside the same
  \<^verbatim>\<open>try\<close>).
\<close>

definition parse_frame :: "int \<Rightarrow> string \<Rightarrow> (string \<times> real) option" where
  "parse_frame output_fps filepath =
     (case frame_num (basename filepath) of
        None \<Rightarrow> None
      | Some n \<Rightarrow>
          if output_fps = 0 then None
          else Some (filepath, timestamp output_fps n))"

definition parse_frames :: "int \<Rightarrow> string list \<Rightarrow> (string \<times> real) list" where
  "parse_frames output_fps frame_files = List.map_filter (parse_frame output_fps) frame_files"

text \<open>\<^verbatim>\<open>frames.sort(key=lambda x: x[1])\<close>: a stable sort on the timestamp.\<close>

definition sort_frames :: "(string \<times> real) list \<Rightarrow> (string \<times> real) list" where
  "sort_frames frames = sort_key snd frames"

text \<open>
  The lines written to the per-batch list file. \<open>DurationLine d\<close> is the line
  \<^verbatim>\<open>duration {d:.6f}\<close>; the last frame's line is the literal \<^verbatim>\<open>duration 0.000000\<close>.
\<close>

definition frame_entry :: "int \<Rightarrow> nat \<Rightarrow> nat \<times> (string \<times> real) \<Rightarrow> line list" where
  "frame_entry output_fps n e =
     (if int (fst e) < int n - 1
      then [FileLine (escape_backslashes (fst (snd e))), DurationLine (duration_sec output_fps)]
      else [FileLine (escape_backslashes (fst (snd e))), DurationLine 0])"

definition edit_list :: "int \<Rightarrow> (string \<times> real) list \<Rightarrow> line list" where
  "edit_list output_fps frames =
     Header # concat (map (frame_entry output_fps (length frames)) (enumerate 0 frames))"

text \<open>The part of \<^verbatim>\<open>cmd_concat\<close> that both reassembly paths build in the same way.\<close>

definition cmd_concat :: "config \<Rightarrow> string \<Rightarrow> int \<Rightarrow> arg list" where
  "cmd_concat cfg concat_list_path output_fps =
     [S ''ffmpeg'',
      S ''-hide_banner'', S ''-loglevel'', S ''error'',
      S ''-f'', S ''concat'',
      S ''-safe'', S ''0'',
      S ''-i'', S concat_list_path,
      S ''-r'', I output_fps] @ map S (FFMPEG_REASSEMBLY_ARGS cfg)"

text \<open>The block under \<^verbatim>\<open>if len(extracted_frames) < 2\<close> (lines 216-238).\<close>

definition too_few_frames ::
  "batch_env \<Rightarrow> string \<Rightarrow> string \<Rightarrow> string \<Rightarrow> string \<Rightarrow> real \<Rightarrow> int \<Rightarrow> batch_return" where
  "too_few_frames env temp_dir batch_id extraction_dir processed_dir duration output_fps =
     (let placeholder_segment = path_join temp_dir (batch_id @ ''_placeholder.mp4'');
          run = Run (cmd_placeholder duration output_fps placeholder_segment)
                  placeholder_segment (placeholder_result env)
      in if placeholder_result env = Completed
         then \<lparr> result = SegmentPath placeholder_segment,
                events = [run, Rmtree extraction_dir, Rmtree processed_dir,
                          UpdateProgress (length (extracted_frames env))],
                deferred_events = [] \<rparr>
         else \<lparr> result = NoSegment, events = [run], deferred_events = [] \<rparr>)"

text \<open>The block under \<^verbatim>\<open>if not success\<close> (lines 289-310).\<close>

definition upscale_failed ::
  "batch_env \<Rightarrow> string \<Rightarrow> string \<Rightarrow> string \<Rightarrow> string \<Rightarrow> real \<Rightarrow> int \<Rightarrow> batch_return" where
  "upscale_failed env temp_dir batch_id extraction_dir processed_dir duration output_fps =
     (let placeholder_segment = path_join temp_dir (batch_id @ ''_placeholder.mp4'');
          run = Run (cmd_placeholder duration output_fps placeholder_segment)
                  placeholder_segment (placeholder_result env)
      in if placeholder_result env = Completed
         then \<lparr> result = SegmentPath placeholder_segment,
                events = [run, Rmtree extraction_dir, Rmtree processed_dir],
                deferred_events = [] \<rparr>
         else \<lparr> result = NoSegment, events = [run], deferred_events = [] \<rparr>)"

text \<open>
  \<^verbatim>\<open>do_reassembly\<close> (lines 318-380), the body of the reassembly thread: its return value
  and its events.
\<close>

definition do_reassembly ::
  "config \<Rightarrow> batch_env \<Rightarrow> string \<Rightarrow> string \<Rightarrow> string \<Rightarrow> real \<Rightarrow> int
     \<Rightarrow> string option \<times> event list" where
  "do_reassembly cfg env temp_dir batch_id reassembly_dir duration output_fps =
     (let frame_files = sort (glob_frames reassembly_dir (processed_frames env))
      in if frame_files = [] then
           (let placeholder_segment = path_join temp_dir (batch_id @ ''_placeholder.mp4'');
                run = Run (cmd_placeholder duration output_fps placeholder_segment)
                        placeholder_segment (placeholder_result env)
            in if placeholder_result env = Completed
               then (Some placeholder_segment, [run])
               else (None, [run]))
         else
           (let frames = sort_frames (parse_frames output_fps frame_files);
                concat_list_path = path_join temp_dir (batch_id @ ''_frames.txt'');
                segment_output = path_join temp_dir (batch_id @ ''_segment.mp4'');
                cmd = cmd_concat cfg concat_list_path output_fps
                        @ [S ''-y'', S ''-c:v'', S ''libx264'', S ''-pix_fmt'', S ''yuv420p'',
                           S segment_output]
            in (Some segment_output,
                [WriteFile concat_list_path (edit_list output_fps frames),
                 Run cmd segment_output (concat_result env),
                 Remove concat_list_path,
                 Rmtree reassembly_dir])))"

text \<open>The branch \<^verbatim>\<open>if MAX_CONCURRENT_BATCHES == 1\<close> (lines 313-386).\<close>

definition decoupled_reassembly ::
  "config \<Rightarrow> batch_env \<Rightarrow> string \<Rightarrow> string \<Rightarrow> string \<Rightarrow> string \<Rightarrow> real \<Rightarrow> int
     \<Rightarrow> batch_return" where
  "decoupled_reassembly cfg env temp_dir batch_id extraction_dir processed_dir duration output_fps =
     (let reassembly_dir = processed_dir @ ''_for_reassembly'';
          thread = do_reassembly cfg env temp_dir batch_id reassembly_dir duration output_fps
      in \<lparr> result = Deferred (fst thread),
           events = [Move processed_dir reassembly_dir, Rmtree extraction_dir],
           deferred_events = snd thread \<rparr>)"

text \<open>The \<^verbatim>\<open>else\<close> branch, "Original reassembly Phase code" (lines 388-454).\<close>

definition standard_reassembly ::
  "config \<Rightarrow> batch_env \<Rightarrow> string \<Rightarrow> string \<Rightarrow> string \<Rightarrow> string \<Rightarrow> real \<Rightarrow> int
     \<Rightarrow> batch_return" where
  "standard_reassembly cfg env temp_dir batch_id extraction_dir processed_dir duration output_fps =
     (let frame_files = sort (glob_frames processed_dir (processed_frames env))
      in if frame_files = [] then
           (let placeholder_segment = path_join temp_dir (batch_id @ ''_placeholder.mp4'');
                run = Run (cmd_placeholder duration output_fps placeholder_segment)
                        placeholder_segment (placeholder_result env)
            in if placeholder_result env = Completed
               then \<lparr> result = SegmentPath placeholder_segment,
                      events = [run, Rmtree extraction_dir, Rmtree processed_dir,
                                UpdateProgress (length (extracted_frames env))],
                      deferred_events = [] \<rparr>
               else \<lparr> result = NoSegment, events = [run], deferred_events = [] \<rparr>)
         else
           (let frames = sort_frames (parse_frames output_fps frame_files);
                concat_list_path = path_join temp_dir (batch_id @ ''_frames.txt'');
                segment_output = path_join temp_dir (batch_id @ ''_segment.mp4'');
                cmd = cmd_concat cfg concat_list_path output_fps @ [S ''-y'', S segment_output]
            in \<lparr> result = SegmentPath segment_output,
                 events = [WriteFile concat_list_path (edit_list output_fps frames),
                           Run cmd segment_output (concat_result env),
                           Remove concat_list_path,
                           Rmtree extraction_dir,
                           Rmtree processed_dir],
                 deferred_events = [] \<rparr>))"

definition reassembly_phase ::
  "config \<Rightarrow> batch_env \<Rightarrow> string \<Rightarrow> string \<Rightarrow> string \<Rightarrow> string \<Rightarrow> real \<Rightarrow> int
     \<Rightarrow> batch_return" where
  "reassembly_phase cfg env temp_dir batch_id extraction_dir processed_dir duration output_fps =
     (if MAX_CONCURRENT_BATCHES cfg = 1
      then decoupled_reassembly cfg env temp_dir batch_id extraction_dir processed_dir
             duration output_fps
      else standard_reassembly cfg env temp_dir batch_id extraction_dir processed_dir
             duration output_fps)"

text \<open>\<^verbatim>\<open>batch_id = f"{base_name}_batch_{batch_index}_{int(time.time())}"\<close>\<close>

definition batch_id_of :: "string \<Rightarrow> nat \<Rightarrow> nat \<Rightarrow> string" where
  "batch_id_of video_file batch_index t =
     fst (splitext (basename video_file)) @ ''_batch_'' @ str_nat batch_index
       @ ''_'' @ str_nat t"

text \<open>The extraction phase (lines 190-213); a failing extraction is only printed.\<close>

definition extraction_phase ::
  "batch_env \<Rightarrow> string \<Rightarrow> real \<Rightarrow> real \<Rightarrow> int \<Rightarrow> string \<Rightarrow> string \<Rightarrow> event list" where
  "extraction_phase env video_file start_time duration output_fps extraction_dir processed_dir =
     [Makedirs extraction_dir,
      Makedirs processed_dir,
      Run (cmd_extract video_file start_time duration output_fps extraction_dir)
        extraction_dir (extract_result env),
      Sleep 2]"

text \<open>
  The processing phase (lines 241-287). The poller runs beside the engine calls; its
  reports are listed after them.
\<close>

definition upscaling_phase ::
  "config \<Rightarrow> batch_env \<Rightarrow> string \<Rightarrow> string \<Rightarrow> string \<Rightarrow> bool \<times> event list" where
  "upscaling_phase cfg env script_dir extraction_dir processed_dir =
     (let loop = esrgan_loop (esrgan_result env)
                   (cmd_esrgan cfg script_dir extraction_dir processed_dir) processed_dir 0 False
      in (fst loop,
          [StartPoller] @ snd loop @ map UpdateProgress (polled env) @ [StopPoller]))"

text \<open>
  \<^verbatim>\<open>process_batch\<close>. \<open>temp_dir\<close> is \<^verbatim>\<open>tempfile.gettempdir()\<close>; the parameters
  \<^verbatim>\<open>time_base\<close> and \<^verbatim>\<open>ffmpeg_extra_args\<close> are never read by the source and
  \<^verbatim>\<open>update_progress(n)\<close> is the event \<open>UpdateProgress n\<close>.
\<close>

definition process_batch ::
  "config \<Rightarrow> batch_env \<Rightarrow> string \<Rightarrow> string \<Rightarrow> nat \<Rightarrow> real \<Rightarrow> real \<Rightarrow> int \<Rightarrow> string
     \<Rightarrow> batch_return" where
  "process_batch cfg env temp_dir video_file batch_index start_time duration output_fps script_dir =
     (let batch_id = batch_id_of video_file batch_index (now env);
          extraction_dir = path_join temp_dir (batch_id @ ''_extraction'');
          processed_dir = path_join temp_dir (batch_id @ ''_processed'');
          extraction = extraction_phase env video_file start_time duration output_fps
                         extraction_dir processed_dir
      in if length (extracted_frames env) < 2 then
           prepend extraction
             (too_few_frames env temp_dir batch_id extraction_dir processed_dir
                duration output_fps)
         else
           (let upscaling = upscaling_phase cfg env script_dir extraction_dir processed_dir
            in if \<not> fst upscaling then
                 prepend (extraction @ snd upscaling)
                   (upscale_failed env temp_dir batch_id extraction_dir processed_dir
                      duration output_fps)
               else
                 prepend (extraction @ snd upscaling)
                   (reassembly_phase cfg env temp_dir batch_id extraction_dir processed_dir
                      duration output_fps)))"


section \<open>The coordinator (\<^verbatim>\<open>process_video\<close>)\<close>

text \<open>
  The submission loop (lines 526-542): \<^verbatim>\<open>time.sleep(STAGGER_DELAY)\<close>, then
  \<^verbatim>\<open>executor.submit(process_batch, ...)\<close>, for each index of the range in turn.
  \<^verbatim>\<open>submit\<close> queues the task and returns at once whatever the pool is doing, so the
  loop never reads \<^verbatim>\<open>MAX_CONCURRENT_BATCHES\<close>.
\<close>

fun submit_loop :: "config \<Rightarrow> real \<Rightarrow> nat list \<Rightarrow> event list" where
  "submit_loop cfg duration [] = []"
| "submit_loop cfg duration (batch_index # rest) =
     Sleep (STAGGER_DELAY cfg)
       # Submit (batch_spec (BATCH_SIZE cfg) duration batch_index)
       # submit_loop cfg duration rest"

definition submit_batches :: "config \<Rightarrow> real \<Rightarrow> event list" where
  "submit_batches cfg duration =
     submit_loop cfg duration [0 ..< nat (num_batches (BATCH_SIZE cfg) duration)]"

text \<open>How a future ends: \<^verbatim>\<open>future.result()\<close> raises or returns the worker's value.\<close>

datatype future_result = Raised | Returned batch_result

text \<open>
  The state of the join loop (lines 543-551): the table \<^verbatim>\<open>segment_files\<close>, the counter
  \<^verbatim>\<open>batches_completed[0]\<close>, what was printed, and, as a record of the run, the indices
  the loop assigned to, in the order of the assignments.
\<close>

record join_state =
  segment_files :: "batch_result list"
  batches_completed :: nat
  slot_writes :: "nat list"
  printed :: "event list"

definition join_init :: "nat \<Rightarrow> join_state" where
  "join_init n =
     \<lparr> segment_files = replicate n NoSegment, batches_completed = 0,
       slot_writes = [], printed = [] \<rparr>"

definition join_step :: "(nat \<Rightarrow> future_result) \<Rightarrow> join_state \<Rightarrow> nat \<Rightarrow> join_state" where
  "join_step future st batch_index =
     (case future batch_index of
        Returned r \<Rightarrow>
          st\<lparr> segment_files := (segment_files st)[batch_index := r],
              batches_completed := batches_completed st + 1,
              slot_writes := slot_writes st @ [batch_index] \<rparr>
      | Raised \<Rightarrow>
          st\<lparr> printed := printed st @ [Print (BatchException (batch_index + 1))] \<rparr>)"

text \<open>
  \<^verbatim>\<open>for future in as_completed(future_to_index)\<close>: \<open>completion_order\<close> lists the batch
  indices in the order in which their futures complete.
\<close>

definition join_all :: "(nat \<Rightarrow> future_result) \<Rightarrow> nat \<Rightarrow> nat list \<Rightarrow> join_state" where
  "join_all future n completion_order = foldl (join_step future) (join_init n) completion_order"

text \<open>
  Lines 557-561: a slot that holds a pair is replaced by \<^verbatim>\<open>result_container[0]\<close> after
  the thread is joined. From here on a slot is \<^verbatim>\<open>None\<close> or a path.
\<close>

fun resolved :: "batch_result \<Rightarrow> string option" where
  "resolved NoSegment = None"
| "resolved (SegmentPath p) = Some p"
| "resolved (Deferred r) = r"

definition resolve_deferred :: "batch_result list \<Rightarrow> string option list" where
  "resolve_deferred table = map resolved table"

text \<open>
  Lines 569-574: the lines of the job's segment list and the warnings printed while it
  is written.
\<close>

fun segment_list :: "string option list \<Rightarrow> line list \<times> event list" where
  "segment_list [] = ([], [])"
| "segment_list (Some seg # rest) =
     (FileLine (escape_backslashes seg) # fst (segment_list rest), snd (segment_list rest))"
| "segment_list (None # rest) =
     (fst (segment_list rest), Print SegmentMissing # snd (segment_list rest))"

definition cmd_concat_segments :: "string \<Rightarrow> string \<Rightarrow> arg list" where
  "cmd_concat_segments concat_list_file video_no_audio =
     [S ''ffmpeg'',
      S ''-hide_banner'', S ''-loglevel'', S ''error'',
      S ''-f'', S ''concat'',
      S ''-safe'', S ''0'',
      S ''-y'',
      S ''-i'', S concat_list_file,
      S ''-c'', S ''copy'',
      S video_no_audio]"

definition cmd_merge :: "string \<Rightarrow> string \<Rightarrow> string \<Rightarrow> arg list" where
  "cmd_merge video_no_audio video_file output_file =
     [S ''ffmpeg'',
      S ''-hide_banner'', S ''-loglevel'', S ''error'',
      S ''-y'',
      S ''-i'', S video_no_audio,
      S ''-i'', S video_file,
      S ''-map'', S ''0:v'',
      S ''-map'', S ''1:a'',
      S ''-c'', S ''copy'',
      S ''-map_metadata'', S ''1'',
      S output_file]"

text \<open>Lines 619-621: \<^verbatim>\<open>if seg and os.path.exists(seg): os.remove(seg)\<close>.\<close>

definition remove_segments :: "string option list \<Rightarrow> event list" where
  "remove_segments table =
     concat (map (\<lambda>seg. case seg of None \<Rightarrow> [] | Some p \<Rightarrow> if p = [] then [] else [Remove p]) table)"

text \<open>
  What the outside world answers to one run of \<^verbatim>\<open>process_video\<close>: the result of
  \<^verbatim>\<open>get_video_info\<close>, how the conversion call ends, for each batch either
  the answers to its worker or \<open>None\<close> when the worker ends by an exception that
  \<^verbatim>\<open>process_batch\<close> does not catch, the order in which the futures complete, and how the
  concatenation and the merge end.
\<close>

record job_env =
  video_info :: "real \<times> real \<times> real"
  convert_result :: run_result
  workers :: "nat \<Rightarrow> batch_env option"
  completion_order :: "nat list"
  segments_concat_result :: run_result
  merge_result :: run_result

datatype job_result = ReturnedNone | ReturnedElapsed | Exception py_error

definition worker_future ::
  "config \<Rightarrow> job_env \<Rightarrow> string \<Rightarrow> string \<Rightarrow> real \<Rightarrow> int \<Rightarrow> string \<Rightarrow> nat \<Rightarrow> future_result" where
  "worker_future cfg env temp_dir converted_video duration output_fps script_dir batch_index =
     (case workers env batch_index of
        None \<Rightarrow> Raised
      | Some benv \<Rightarrow>
          Returned (result (process_batch cfg benv temp_dir converted_video batch_index
            (spec_start (batch_spec (BATCH_SIZE cfg) duration batch_index))
            (spec_duration (batch_spec (BATCH_SIZE cfg) duration batch_index))
            output_fps script_dir)))"

text \<open>
  The part of \<^verbatim>\<open>process_video\<close> after the conversion (lines 477-632). The progress
  bar thread only prints and is left out.
\<close>

definition assemble ::
  "config \<Rightarrow> job_env \<Rightarrow> string \<Rightarrow> string \<Rightarrow> string \<Rightarrow> string \<Rightarrow> real \<Rightarrow> real
     \<Rightarrow> job_result \<times> event list" where
  "assemble cfg env temp_dir video_file script_dir converted_video fps duration =
     (let output_fps = py_round fps;
          n = nat (num_batches (BATCH_SIZE cfg) duration);
          st = join_all
                 (worker_future cfg env temp_dir converted_video duration output_fps script_dir)
                 n (completion_order env);
          table = resolve_deferred (segment_files st);
          base_name = fst (splitext (basename video_file));
          concat_list_file = path_join temp_dir (base_name @ ''_segments.txt'');
          video_no_audio = path_join temp_dir (base_name @ ''_no_audio.mp4'');
          final_ext = (if lower (FINAL_FILE_FORMAT_OVERRIDE cfg) \<noteq> ''false''
                       then FINAL_FILE_FORMAT_OVERRIDE cfg else snd (splitext video_file));
          output_dir = path_join script_dir ''output'';
          output_file = path_join output_dir (base_name @ final_ext);
          upto_concat =
            submit_batches cfg duration
            @ printed st
            @ (if converted_video \<noteq> video_file then [Remove converted_video] else [])
            @ [WriteFile concat_list_file (fst (segment_list table))]
            @ snd (segment_list table)
            @ [Run (cmd_concat_segments concat_list_file video_no_audio) video_no_audio
                 (segments_concat_result env)];
          upto_merge =
            upto_concat
            @ [Makedirs output_dir,
               Run (cmd_merge video_no_audio video_file output_file) output_file
                 (merge_result env)]
      in if segments_concat_result env \<noteq> Completed then (ReturnedNone, upto_concat)
         else if merge_result env \<noteq> Completed then (ReturnedNone, upto_merge)
         else (ReturnedElapsed,
               upto_merge @ remove_segments table
                 @ [Remove concat_list_file, Remove video_no_audio]))"

text \<open>\<^verbatim>\<open>process_video\<close>; \<open>temp_dir\<close> is \<^verbatim>\<open>tempfile.gettempdir()\<close>.\<close>

definition process_video ::
  "config \<Rightarrow> job_env \<Rightarrow> string \<Rightarrow> string \<Rightarrow> string \<Rightarrow> job_result \<times> event list" where
  "process_video cfg env temp_dir video_file script_dir =
     (case video_info env of
        (fps, duration, time_base) \<Rightarrow>
          if duration \<le> 0 then (ReturnedNone, [])
          else
            (case convert_if_needed temp_dir (convert_result env) video_file fps of
               (Inl e, evs) \<Rightarrow> (Exception e, evs)
             | (Inr converted_video, evs) \<Rightarrow>
                 (case assemble cfg env temp_dir video_file script_dir converted_video
                         fps duration of
                    (r, evs') \<Rightarrow> (r, evs @ evs'))))"


section \<open>Sample inputs\<close>

text \<open>
  Three batches: the first returns a segment, the worker of the second raises, the third
  returns the handle of a reassembly thread that ends with a segment.
\<close>

definition futures3 :: "nat \<Rightarrow> future_result" where
  "futures3 i =
     (if i = 0 then Returned (SegmentPath ''/tmp/v_batch_0_7_segment.mp4'')
      else if i = 1 then Raised
      else Returned (Deferred (Some ''/tmp/v_batch_2_9_segment.mp4'')))"



text \<open>The float \<^verbatim>\<open>29.97\<close>.\<close>

definition float_29_97 :: real where
  "float_29_97 = 1054475631502295 / 2 ^ 45"


text \<open>
  A batch for which the extraction fails and leaves no frame, and the synthesis of the
  placeholder fails too.
\<close>

definition env_no_frames :: batch_env where
  "env_no_frames =
     \<lparr> now = 7,
       extract_result = NonZeroExit,
       extracted_frames = [],
       placeholder_result = NonZeroExit,
       esrgan_result = (\<lambda>k. Completed),
       polled = [],
       processed_frames = [],
       concat_result = Completed \<rparr>"

text \<open>A batch with a single extracted frame, for which the placeholder is synthesised.\<close>

definition env_one_frame :: batch_env where
  "env_one_frame =
     \<lparr> now = 7,
       extract_result = Completed,
       extracted_frames = [''frame_000001.png''],
       placeholder_result = Completed,
       esrgan_result = (\<lambda>k. Completed),
       polled = [],
       processed_frames = [],
       concat_result = Completed \<rparr>"

section \<open>Evaluating float operations\<close>

text \<open>
  \<open>bit_length\<close> on numerals, so that \<open>round_double\<close> can be computed on concrete numbers.
\<close>

lemma bit_length_0: "bit_length 0 = 0"
  by (simp add: bit_length.simps)

lemma bit_length_1: "bit_length 1 = 1"
  by (simp add: bit_length.simps)

lemma bit_length_neg: "bit_length (- numeral k) = 0"
  by (simp add: bit_length.simps)

lemma bit_length_Bit0: "bit_length (numeral (Num.Bit0 k)) = 1 + bit_length (numeral k)"
  by (subst bit_length.simps) simp

lemma bit_length_Bit1: "bit_length (numeral (Num.Bit1 k)) = 1 + bit_length (numeral k)"
  by (subst bit_length.simps) simp

lemmas round_double_eval =
  round_double_def binade_def py_round_def Let_def
  bit_length_0 bit_length_1 bit_length_neg bit_length_Bit0 bit_length_Bit1



section \<open>The batch plan in floating point\<close>


section \<open>Properties of the submission loop\<close>

lemma length_submit_loop: "length (submit_loop cfg d js) = 2 * length js"
  by (induction js) auto

lemma nth_submit_loop:
  "k < length js \<Longrightarrow>
     submit_loop cfg d js ! (2 * k) = Sleep (STAGGER_DELAY cfg) \<and>
     submit_loop cfg d js ! (2 * k + 1) = Submit (batch_spec (BATCH_SIZE cfg) d (js ! k))"
proof (induction js arbitrary: k)
  case Nil
  then show ?case by simp
next
  case (Cons j js)
  show ?case
  proof (cases k)
    case 0
    then show ?thesis by simp
  next
    case (Suc k')
    with Cons.prems have "k' < length js" by simp
    from Cons.IH[OF this] show ?thesis using Suc by simp
  qed
qed

lemma submits_of_submit_loop:
  "[s. Submit s \<leftarrow> submit_loop cfg d js] = map (batch_spec (BATCH_SIZE cfg) d) js"
  by (induction js) auto

lemma sleeps_of_submit_loop:
  "[t. Sleep t \<leftarrow> submit_loop cfg d js] = replicate (length js) (STAGGER_DELAY cfg)"
  by (induction js) auto

lemma submit_loop_pool_size:
  "submit_loop (cfg\<lparr>MAX_CONCURRENT_BATCHES := p\<rparr>) d js = submit_loop cfg d js"
  by (induction js) auto

text \<open>
  Claim C8. The batch tasks are submitted in ascending index order and a wait of the
  configured stagger delay comes before every single submission, the first one included:
  the events of the loop are, for \<open>k = 0, 1, ...\<close>, the sleep at position \<open>2k\<close> and the
  submission of batch \<open>k\<close> at position \<open>2k + 1\<close>, and nothing else. So a job with
  \<open>batchCount\<close> batches has exactly \<open>batchCount\<close> stagger waits, and the loop is the
  same for every pool size.
\<close>

theorem C8_stagger_before_every_submission:
  "length (submit_batches cfg duration) = 2 * nat (num_batches (BATCH_SIZE cfg) duration) \<and>
   (\<forall>k < nat (num_batches (BATCH_SIZE cfg) duration).
      submit_batches cfg duration ! (2 * k) = Sleep (STAGGER_DELAY cfg) \<and>
      submit_batches cfg duration ! (2 * k + 1)
        = Submit (batch_spec (BATCH_SIZE cfg) duration k)) \<and>
   [s. Submit s \<leftarrow> submit_batches cfg duration] = plan_batches (BATCH_SIZE cfg) duration \<and>
   [t. Sleep t \<leftarrow> submit_batches cfg duration]
     = replicate (nat (num_batches (BATCH_SIZE cfg) duration)) (STAGGER_DELAY cfg) \<and>
   submit_batches (cfg\<lparr>MAX_CONCURRENT_BATCHES := pool_size\<rparr>) duration
     = submit_batches cfg duration"
proof (intro conjI allI impI)
  let ?n = "nat (num_batches (BATCH_SIZE cfg) duration)"
  show "length (submit_batches cfg duration) = 2 * ?n"
    by (simp add: submit_batches_def length_submit_loop)
  show "[s. Submit s \<leftarrow> submit_batches cfg duration] = plan_batches (BATCH_SIZE cfg) duration"
    by (simp add: submit_batches_def submits_of_submit_loop plan_batches_def)
  show "[t. Sleep t \<leftarrow> submit_batches cfg duration] = replicate ?n (STAGGER_DELAY cfg)"
    by (simp add: submit_batches_def sleeps_of_submit_loop)
  show "submit_batches (cfg\<lparr>MAX_CONCURRENT_BATCHES := pool_size\<rparr>) duration
          = submit_batches cfg duration"
    by (simp add: submit_batches_def submit_loop_pool_size)
next
  fix k assume k: "k < nat (num_batches (BATCH_SIZE cfg) duration)"
  then have "k < length [0 ..< nat (num_batches (BATCH_SIZE cfg) duration)]" by simp
  from nth_submit_loop[OF this, of cfg duration] k
  show "submit_batches cfg duration ! (2 * k) = Sleep (STAGGER_DELAY cfg)"
    and "submit_batches cfg duration ! (2 * k + 1)
           = Submit (batch_spec (BATCH_SIZE cfg) duration k)"
    by (simp_all add: submit_batches_def)
qed

theorem C8_stagger_before_every_submission_witness:
  "nat (num_batches (BATCH_SIZE default_config) 50) = 3 \<and>
   submit_batches default_config 50 ! (2 * 0) = Sleep 10 \<and>
   submit_batches default_config 50 ! (2 * 2 + 1)
     = Submit \<lparr>spec_index = 2, spec_start = 40, spec_duration = 10\<rparr> \<and>
   [t. Sleep t \<leftarrow> submit_batches default_config 50] = [10, 10, 10] \<and>
   submit_batches (default_config\<lparr>MAX_CONCURRENT_BATCHES := 64\<rparr>) 50
     = submit_batches default_config 50"
proof -
  have d: "STAGGER_DELAY default_config = 10" "BATCH_SIZE default_config = 20"
    by (simp_all add: default_config_def)
  have n: "nat (num_batches 20 50) = 3"
    by (simp add: num_batches_def round_double_eval cong: let_weak_cong)
  have b: "batch_spec 20 50 2 = \<lparr>spec_index = 2, spec_start = 40, spec_duration = 10\<rparr>"
    by (simp add: batch_spec_def batch_duration_def round_double_eval cong: let_weak_cong)
  have r: "replicate 3 (10::real) = [10, 10, 10]" by (simp add: numeral_3_eq_3)
  note T = C8_stagger_before_every_submission[of default_config 50 64, unfolded d n]
  from T have all: "\<forall>k<3. submit_batches default_config 50 ! (2 * k) = Sleep 10 \<and>
      submit_batches default_config 50 ! (2 * k + 1) = Submit (batch_spec 20 50 k)"
    by blast
  from all[THEN spec, of 0] all[THEN spec, of 2] T show ?thesis
    by (simp add: d n b r)
qed

section \<open>Properties of the join loop and the segment table\<close>

lemma join_step_fields:
  "segment_files (join_step f st a) =
     (case f a of Returned r \<Rightarrow> (segment_files st)[a := r] | Raised \<Rightarrow> segment_files st)"
  "batches_completed (join_step f st a) =
     batches_completed st + (if f a \<noteq> Raised then 1 else 0)"
  "slot_writes (join_step f st a) = slot_writes st @ (if f a \<noteq> Raised then [a] else [])"
  by (simp_all add: join_step_def split: future_result.splits)

lemma length_table_foldl:
  "length (segment_files (foldl (join_step f) st order)) = length (segment_files st)"
  by (induction order arbitrary: st) (simp_all add: join_step_fields split: future_result.splits)

lemma nth_table_foldl:
  "distinct order \<Longrightarrow> i < length (segment_files st) \<Longrightarrow>
   segment_files (foldl (join_step f) st order) ! i =
     (if i \<in> set order
      then (case f i of Returned r \<Rightarrow> r | Raised \<Rightarrow> segment_files st ! i)
      else segment_files st ! i)"
proof (induction order arbitrary: st)
  case Nil
  then show ?case by simp
next
  case (Cons a order)
  have len: "i < length (segment_files (join_step f st a))"
    using Cons.prems(2) by (simp add: join_step_fields split: future_result.splits)
  have d: "distinct order" and a: "a \<notin> set order" using Cons.prems(1) by simp_all
  show ?case
  proof (cases "i = a")
    case True
    then show ?thesis
      using Cons.IH[OF d len] a Cons.prems(2)
      by (simp add: join_step_fields split: future_result.splits)
  next
    case False
    then have same: "segment_files (join_step f st a) ! i = segment_files st ! i"
      by (simp add: join_step_fields split: future_result.splits)
    show ?thesis
      using Cons.IH[OF d len] False by (simp add: same split: future_result.splits)
  qed
qed

lemma counter_foldl:
  "batches_completed (foldl (join_step f) st order) =
     batches_completed st + length (filter (\<lambda>i. f i \<noteq> Raised) order)"
  by (induction order arbitrary: st) (simp_all add: join_step_fields)

lemma writes_foldl:
  "slot_writes (foldl (join_step f) st order) =
     slot_writes st @ filter (\<lambda>i. f i \<noteq> Raised) order"
  by (induction order arbitrary: st) (simp_all add: join_step_fields)

lemma perm_of_completion:
  assumes "mset order = mset [0 ..< n]"
  shows "distinct order" and "set order = {0 ..< n}"
proof -
  show "distinct order"
    using assms by (metis distinct_upt mset_eq_imp_distinct_iff)
  show "set order = {0 ..< n}"
    using assms by (metis mset_eq_setD set_upt)
qed

lemma join_all_table:
  assumes "mset order = mset [0 ..< n]"
  shows "segment_files (join_all f n order) =
           map (\<lambda>i. case f i of Returned r \<Rightarrow> r | Raised \<Rightarrow> NoSegment) [0 ..< n]"
proof (rule nth_equalityI)
  show "length (segment_files (join_all f n order)) =
          length (map (\<lambda>i. case f i of Returned r \<Rightarrow> r | Raised \<Rightarrow> NoSegment) [0 ..< n])"
    by (simp add: join_all_def length_table_foldl join_init_def)
next
  fix i assume "i < length (segment_files (join_all f n order))"
  then have i: "i < n" by (simp add: join_all_def length_table_foldl join_init_def)
  then have i': "i < length (segment_files (join_init n))" by (simp add: join_init_def)
  have mem: "i \<in> set order" using perm_of_completion(2)[OF assms] i by simp
  show "segment_files (join_all f n order) ! i =
          map (\<lambda>i. case f i of Returned r \<Rightarrow> r | Raised \<Rightarrow> NoSegment) [0 ..< n] ! i"
    using nth_table_foldl[OF perm_of_completion(1)[OF assms] i', of f] mem i
    by (simp add: join_all_def join_init_def split: future_result.splits)
qed

lemma segment_list_lines:
  "fst (segment_list table) =
     map (\<lambda>p. FileLine (escape_backslashes p)) (List.map_filter id table)"
  by (induction table rule: segment_list.induct) (simp_all add: List.map_filter_simps)

lemma segment_list_warnings:
  "snd (segment_list table) =
     replicate (length (filter (\<lambda>s. s = None) table)) (Print SegmentMissing)"
  by (induction table rule: segment_list.induct) simp_all

lemma map_filter_id_map: "List.map_filter id (map g xs) = List.map_filter g xs"
  by (induction xs) (simp_all add: List.map_filter_simps split: option.splits)

text \<open>
  Claim C2. Whatever the order in which the batch futures complete (any permutation of
  the indices \<open>0, ..., n - 1\<close>), slot \<open>i\<close> of the table holds what the worker of batch
  \<open>i\<close> returned (nothing when it raised), so the table is the one that completion in
  index order gives. The lines of the final concatenation list are the paths of the
  non-null slots in ascending batch index, and every null slot only adds one warning: the
  list is built in any case.
\<close>

theorem C2_concatenation_in_index_order:
  assumes "mset finish_order = mset [0 ..< n]"
  shows
    "segment_files (join_all future n finish_order) =
       map (\<lambda>i. case future i of Returned r \<Rightarrow> r | Raised \<Rightarrow> NoSegment) [0 ..< n] \<and>
     segment_files (join_all future n finish_order) =
       segment_files (join_all future n [0 ..< n]) \<and>
     fst (segment_list (resolve_deferred (segment_files (join_all future n finish_order)))) =
       map (\<lambda>p. FileLine (escape_backslashes p))
         (List.map_filter
            (\<lambda>i. resolved (case future i of Returned r \<Rightarrow> r | Raised \<Rightarrow> NoSegment)) [0 ..< n]) \<and>
     snd (segment_list (resolve_deferred (segment_files (join_all future n finish_order)))) =
       replicate
         (length (filter
            (\<lambda>i. resolved (case future i of Returned r \<Rightarrow> r | Raised \<Rightarrow> NoSegment) = None)
            [0 ..< n]))
         (Print SegmentMissing)"
proof -
  let ?slot = "\<lambda>i. case future i of Returned r \<Rightarrow> r | Raised \<Rightarrow> NoSegment"
  have t: "segment_files (join_all future n finish_order) = map ?slot [0 ..< n]"
    by (rule join_all_table[OF assms])
  have t0: "segment_files (join_all future n [0 ..< n]) = map ?slot [0 ..< n]"
    by (rule join_all_table) simp
  have r: "resolve_deferred (map ?slot [0 ..< n]) = map (\<lambda>i. resolved (?slot i)) [0 ..< n]"
    by (simp add: resolve_deferred_def)
  have l: "fst (segment_list (map (\<lambda>i. resolved (?slot i)) [0 ..< n])) =
      map (\<lambda>p. FileLine (escape_backslashes p))
         (List.map_filter (\<lambda>i. resolved (?slot i)) [0 ..< n])"
    by (simp only: segment_list_lines map_filter_id_map)
  have w: "snd (segment_list (map (\<lambda>i. resolved (?slot i)) [0 ..< n])) =
      replicate (length (filter (\<lambda>i. resolved (?slot i) = None) [0 ..< n]))
        (Print SegmentMissing)"
    by (simp add: segment_list_warnings filter_map comp_def)
  show ?thesis
    unfolding t t0 r l w by simp
qed

theorem C2_concatenation_in_index_order_witness:
  "mset [2, 0, 1] = mset [0 ..< 3] \<and>
   segment_list (resolve_deferred (segment_files (join_all futures3 3 [2, 0, 1]))) =
     ([FileLine ''/tmp/v_batch_0_7_segment.mp4'', FileLine ''/tmp/v_batch_2_9_segment.mp4''],
      [Print SegmentMissing])"
proof -
  have h: "mset [2, 0, 1] = mset [0 ..< (3::nat)]"
    by (simp add: upt_rec)
  have u: "[0 ..< (3::nat)] = [0, 1, 2]" by (simp add: upt_rec)
  from C2_concatenation_in_index_order[OF h, of futures3]
  have "fst (segment_list (resolve_deferred (segment_files (join_all futures3 3 [2, 0, 1])))) =
          [FileLine ''/tmp/v_batch_0_7_segment.mp4'', FileLine ''/tmp/v_batch_2_9_segment.mp4'']"
   and "snd (segment_list (resolve_deferred (segment_files (join_all futures3 3 [2, 0, 1])))) =
          [Print SegmentMissing]"
    by (simp_all add: u futures3_def List.map_filter_simps escape_backslashes_def
        resolve_deferred_def)
  then show ?thesis using h by (simp add: prod_eq_iff)
qed

text \<open>
  Claim C10. In the join loop every slot of the table is assigned at most once, and
  exactly the slots of the batches whose future did not raise are assigned. The slot of
  a batch whose worker raised stays null (and is null at concatenation), the counter of
  completed batches counts the batches that did not raise, and so it never exceeds the
  number of batches.
\<close>

theorem C10_slots_written_once:
  assumes "mset finish_order = mset [0 ..< n]"
  shows
    "distinct (slot_writes (join_all future n finish_order)) \<and>
     set (slot_writes (join_all future n finish_order)) = {i. i < n \<and> future i \<noteq> Raised} \<and>
     (\<forall>i < n. future i = Raised \<longrightarrow>
        i \<notin> set (slot_writes (join_all future n finish_order)) \<and>
        segment_files (join_all future n finish_order) ! i = NoSegment \<and>
        resolve_deferred (segment_files (join_all future n finish_order)) ! i = None) \<and>
     batches_completed (join_all future n finish_order)
       = card {i. i < n \<and> future i \<noteq> Raised} \<and>
     batches_completed (join_all future n finish_order) \<le> n"
proof -
  let ?J = "join_all future n finish_order"
  have d: "distinct finish_order" and s: "set finish_order = {0 ..< n}"
    using perm_of_completion[OF assms] by simp_all
  have w: "slot_writes ?J = filter (\<lambda>i. future i \<noteq> Raised) finish_order"
    by (simp add: join_all_def writes_foldl join_init_def)
  have c: "batches_completed ?J = length (filter (\<lambda>i. future i \<noteq> Raised) finish_order)"
    by (simp add: join_all_def counter_foldl join_init_def)
  have dw: "distinct (slot_writes ?J)" using d by (simp add: w)
  have sw: "set (slot_writes ?J) = {i. i < n \<and> future i \<noteq> Raised}"
    using s by (auto simp: w)
  have "card (set (slot_writes ?J)) = length (slot_writes ?J)"
    by (rule distinct_card[OF dw])
  then have "card {i. i < n \<and> future i \<noteq> Raised} = length (slot_writes ?J)"
    unfolding sw .
  then have card: "batches_completed ?J = card {i. i < n \<and> future i \<noteq> Raised}"
    by (simp add: c w)
  have le: "batches_completed ?J \<le> n"
  proof -
    have "length (filter (\<lambda>i. future i \<noteq> Raised) finish_order) \<le> length finish_order"
      by (rule length_filter_le)
    also have "length finish_order = n"
      using assms by (metis length_upt mset_eq_length diff_zero)
    finally show ?thesis by (simp add: c)
  qed
  have t: "segment_files ?J =
      map (\<lambda>i. case future i of Returned r \<Rightarrow> r | Raised \<Rightarrow> NoSegment) [0 ..< n]"
    by (rule join_all_table[OF assms])
  have raised: "\<forall>i < n. future i = Raised \<longrightarrow>
        i \<notin> set (slot_writes ?J) \<and> segment_files ?J ! i = NoSegment \<and>
        resolve_deferred (segment_files ?J) ! i = None"
    by (simp add: sw t resolve_deferred_def)
  show ?thesis using dw sw raised card le by blast
qed

theorem C10_slots_written_once_witness:
  "mset [2, 0, 1] = mset [0 ..< 3] \<and>
   slot_writes (join_all futures3 3 [2, 0, 1]) = [2, 0] \<and>
   batches_completed (join_all futures3 3 [2, 0, 1]) = 2 \<and>
   segment_files (join_all futures3 3 [2, 0, 1]) ! 1 = NoSegment"
proof -
  have h: "mset [2, 0, 1] = mset [0 ..< (3::nat)]"
    by (simp add: upt_rec)
  have r: "futures3 1 = Raised" by (simp add: futures3_def)
  have e: "slot_writes (join_all futures3 3 [2, 0, 1]) = [2, 0] \<and>
           batches_completed (join_all futures3 3 [2, 0, 1]) = 2"
    by (simp add: join_all_def join_init_def join_step_def futures3_def)
  from C10_slots_written_once[OF h, of futures3] r
  have "segment_files (join_all futures3 3 [2, 0, 1]) ! 1 = NoSegment" by simp
  then show ?thesis using h e by simp
qed

section \<open>Properties of the format normaliser\<close>

lemma py_round_nearest: "\<bar>x - real_of_int (py_round x)\<bar> \<le> 1 / 2"
proof -
  define f where "f = \<lfloor>x\<rfloor>"
  define d where "d = x - real_of_int f"
  have d0: "0 \<le> d" and d1: "d < 1"
    unfolding d_def f_def by linarith+
  have p: "py_round x = (if d < 1 / 2 then f else if 1 / 2 < d then f + 1
                         else if even f then f else f + 1)"
    unfolding py_round_def Let_def d_def f_def by (rule refl)
  from p consider (lo) "py_round x = f" "d \<le> 1 / 2" | (hi) "py_round x = f + 1" "1 / 2 \<le> d"
    by (cases "d < 1 / 2"; cases "1 / 2 < d"; cases "even f") simp_all
  then show ?thesis
  proof cases
    case lo
    have "x - real_of_int f = d" by (simp add: d_def)
    then show ?thesis unfolding lo(1) using d0 lo(2) by simp
  next
    case hi
    have "x - real_of_int (f + 1) = d - 1" by (simp add: d_def)
    then show ?thesis unfolding hi(1) using d1 hi(2) by simp
  qed
qed

lemma py_round_nearest_twice: "\<bar>x - real_of_int (py_round x)\<bar> * 2 \<le> 1"
  using py_round_nearest[of x] by simp

text \<open>
  Claim C7. The normaliser decides as follows. An integer frame rate (within the
  tolerance) and an extension \<^verbatim>\<open>.mp4\<close>, compared without regard to case: the input path is
  returned and nothing is run. An integer frame rate and any other extension: one remux
  with stream copy into \<^verbatim>\<open><temp>/<base>_converted.mp4\<close>. A non-integer frame rate, whatever
  the extension: one re-encode into the same target that forces the frame rate
  \<^verbatim>\<open>int(round(fps))\<close>, an integer at distance at most one half from \<^verbatim>\<open>fps\<close>, with
  \<^verbatim>\<open>libx264\<close>, preset \<^verbatim>\<open>fast\<close> and \<^verbatim>\<open>crf 18\<close>. When the conversion command fails, the
  error propagates to the caller.
\<close>

theorem C7_normaliser_decision_table:
  "(is_integer_fps fps \<and> lower (snd (splitext video_file)) = ''.mp4'' \<longrightarrow>
      convert_if_needed temp_dir ffmpeg video_file fps = (Inr video_file, [])) \<and>
   (is_integer_fps fps \<and> lower (snd (splitext video_file)) \<noteq> ''.mp4'' \<longrightarrow>
      convert_if_needed temp_dir ffmpeg video_file fps =
        (if ffmpeg = Completed
         then Inr (path_join temp_dir (fst (splitext (basename video_file)) @ ''_converted.mp4''))
         else Inl CalledProcessError,
         [Run [S ''ffmpeg'', S ''-hide_banner'', S ''-loglevel'', S ''error'', S ''-y'',
               S ''-i'', S video_file, S ''-c'', S ''copy'',
               S (path_join temp_dir (fst (splitext (basename video_file)) @ ''_converted.mp4''))]
            (path_join temp_dir (fst (splitext (basename video_file)) @ ''_converted.mp4''))
            ffmpeg])) \<and>
   (\<not> is_integer_fps fps \<longrightarrow>
      convert_if_needed temp_dir ffmpeg video_file fps =
        (if ffmpeg = Completed
         then Inr (path_join temp_dir (fst (splitext (basename video_file)) @ ''_converted.mp4''))
         else Inl CalledProcessError,
         [Run [S ''ffmpeg'', S ''-hide_banner'', S ''-loglevel'', S ''error'', S ''-y'',
               S ''-i'', S video_file, S ''-r'', I (py_round fps),
               S ''-c:v'', S ''libx264'', S ''-preset'', S ''fast'', S ''-crf'', S ''18'',
               S (path_join temp_dir (fst (splitext (basename video_file)) @ ''_converted.mp4''))]
            (path_join temp_dir (fst (splitext (basename video_file)) @ ''_converted.mp4''))
            ffmpeg]) \<and>
      \<bar>fps - real_of_int (py_round fps)\<bar> \<le> 1 / 2)"
  by (simp add: convert_if_needed_def Let_def cmd_remux_def cmd_encode_def py_round_nearest_twice)

theorem C7_normaliser_decision_table_witness:
  "convert_if_needed ''/tmp'' Completed ''/in/clip.MP4'' 30 = (Inr ''/in/clip.MP4'', []) \<and>
   fst (convert_if_needed ''/tmp'' Completed ''/in/clip.mkv'' 30) = Inr ''/tmp/clip_converted.mp4'' \<and>
   convert_if_needed ''/tmp'' Completed ''/in/clip.mkv'' float_29_97 =
     (Inr ''/tmp/clip_converted.mp4'',
      [Run [S ''ffmpeg'', S ''-hide_banner'', S ''-loglevel'', S ''error'', S ''-y'',
            S ''-i'', S ''/in/clip.mkv'', S ''-r'', I 30,
            S ''-c:v'', S ''libx264'', S ''-preset'', S ''fast'', S ''-crf'', S ''18'',
            S ''/tmp/clip_converted.mp4'']
         ''/tmp/clip_converted.mp4'' Completed])"
proof -
  have f: "float_29_97 = 1054475631502295 / 35184372088832"
    by (simp add: float_29_97_def)
  have i30: "is_integer_fps 30"
    by (simp add: is_integer_fps_def tol_def round_double_eval cong: let_weak_cong)
  have n2997: "\<not> is_integer_fps float_29_97"
    by (simp add: is_integer_fps_def tol_def f round_double_eval cong: let_weak_cong)
  have r: "py_round float_29_97 = 30"
    by (simp add: f py_round_def cong: let_weak_cong)
  have e1: "lower (snd (splitext ''/in/clip.MP4'')) = ''.mp4''"
    by (simp add: splitext_def basename_def Let_def lower_def lower_char_def)
  have e2: "lower (snd (splitext ''/in/clip.mkv'')) \<noteq> ''.mp4''"
    by (simp add: splitext_def basename_def Let_def lower_def lower_char_def)
  have p: "path_join ''/tmp'' (fst (splitext (basename ''/in/clip.mkv'')) @ ''_converted.mp4'')
             = ''/tmp/clip_converted.mp4''"
    by (simp add: splitext_def basename_def Let_def path_join_def)
  from C7_normaliser_decision_table[of 30 "''/in/clip.MP4''" "''/tmp''" Completed] i30 e1
  have a: "convert_if_needed ''/tmp'' Completed ''/in/clip.MP4'' 30 = (Inr ''/in/clip.MP4'', [])"
    by blast
  from C7_normaliser_decision_table[of 30 "''/in/clip.mkv''" "''/tmp''" Completed] i30 e2
  have b: "fst (convert_if_needed ''/tmp'' Completed ''/in/clip.mkv'' 30)
             = Inr ''/tmp/clip_converted.mp4''"
    unfolding p by simp
  from C7_normaliser_decision_table[of float_29_97 "''/in/clip.mkv''" "''/tmp''" Completed] n2997
  have c: "convert_if_needed ''/tmp'' Completed ''/in/clip.mkv'' float_29_97 =
     (Inr ''/tmp/clip_converted.mp4'',
      [Run [S ''ffmpeg'', S ''-hide_banner'', S ''-loglevel'', S ''error'', S ''-y'',
            S ''-i'', S ''/in/clip.mkv'', S ''-r'', I 30,
            S ''-c:v'', S ''libx264'', S ''-preset'', S ''fast'', S ''-crf'', S ''18'',
            S ''/tmp/clip_converted.mp4'']
         ''/tmp/clip_converted.mp4'' Completed])"
    unfolding p r by simp
  from a b c show ?thesis by blast
qed

section \<open>Properties of the edit list\<close>










section \<open>Properties of the batch worker\<close>

lemma process_batch_too_few:
  assumes "length (extracted_frames env) < 2"
  shows "process_batch cfg env temp_dir video_file batch_index start_time duration output_fps script_dir
    = prepend
        (extraction_phase env video_file start_time duration output_fps
           (path_join temp_dir (batch_id_of video_file batch_index (now env) @ ''_extraction''))
           (path_join temp_dir (batch_id_of video_file batch_index (now env) @ ''_processed'')))
        (too_few_frames env temp_dir (batch_id_of video_file batch_index (now env))
           (path_join temp_dir (batch_id_of video_file batch_index (now env) @ ''_extraction''))
           (path_join temp_dir (batch_id_of video_file batch_index (now env) @ ''_processed''))
           duration output_fps)"
  using assms by (simp add: process_batch_def Let_def)

lemma length_path_join: "length b \<le> length (path_join a b)"
  by (simp add: path_join_def)

lemma cmd_esrgan_not_ffmpeg: "hd (cmd_esrgan cfg script_dir e p) \<noteq> S ''ffmpeg''"
proof -
  have "length ''realesrgan-ncnn-vulkan'' \<le>
        length (path_join (path_join script_dir ''bin'') ''realesrgan-ncnn-vulkan'')"
    by (rule length_path_join)
  then have "path_join (path_join script_dir ''bin'') ''realesrgan-ncnn-vulkan'' \<noteq> ''ffmpeg''"
    by auto
  then show ?thesis
    by (simp add: cmd_esrgan_def)
qed

lemma batch_id_example: "batch_id_of ''/in/v.mp4'' 0 7 = ''v_batch_0_7''"
  by (simp add: batch_id_of_def splitext_def basename_def Let_def str_nat.simps digit_char_def)

text \<open>
  Claim C3, amended. A batch in which fewer than two frames were extracted never calls the
  upscaling engine. When the synthesis of the placeholder succeeds, the batch returns the
  placeholder segment, a black clip of the batch's duration at the output frame rate, after
  it has removed the extraction and the processed directory and reported the number of
  extracted frames as progress. When the synthesis of the placeholder fails, the batch
  returns no segment, and the failing call is its last action. No reassembly thread is
  started in either case.
\<close>

theorem C3_too_few_frames_placeholder:
  assumes "length (extracted_frames env) < 2"
    and "batch_id = batch_id_of video_file batch_index (now env)"
    and "extraction_dir = path_join temp_dir (batch_id @ ''_extraction'')"
    and "processed_dir = path_join temp_dir (batch_id @ ''_processed'')"
    and "placeholder_segment = path_join temp_dir (batch_id @ ''_placeholder.mp4'')"
    and "r = process_batch cfg env temp_dir video_file batch_index start_time duration
               output_fps script_dir"
  shows
    "(\<forall>e p out res. Run (cmd_esrgan cfg script_dir e p) out res
         \<notin> set (events r @ deferred_events r)) \<and>
     (placeholder_result env = Completed \<longrightarrow>
        result r = SegmentPath placeholder_segment \<and>
        events r =
          extraction_phase env video_file start_time duration output_fps extraction_dir
            processed_dir
          @ [Run [S ''ffmpeg'', S ''-hide_banner'', S ''-loglevel'', S ''error'', S ''-y'',
                  S ''-f'', S ''lavfi'', S ''-i'', Lavfi duration, S ''-r'', I output_fps,
                  S ''-c:v'', S ''libx264'', S ''-pix_fmt'', S ''yuv420p'',
                  S placeholder_segment]
               placeholder_segment Completed,
             Rmtree extraction_dir,
             Rmtree processed_dir,
             UpdateProgress (length (extracted_frames env))]) \<and>
     (placeholder_result env \<noteq> Completed \<longrightarrow>
        result r = NoSegment \<and>
        events r =
          extraction_phase env video_file start_time duration output_fps extraction_dir
            processed_dir
          @ [Run (cmd_placeholder duration output_fps placeholder_segment)
               placeholder_segment (placeholder_result env)]) \<and>
     deferred_events r = []"
proof -
  have r: "r = prepend
        (extraction_phase env video_file start_time duration output_fps extraction_dir
           processed_dir)
        (too_few_frames env temp_dir batch_id extraction_dir processed_dir duration output_fps)"
    unfolding assms(6) assms(2-4) by (rule process_batch_too_few[OF assms(1)])
  have a: "\<forall>e p out res. Run (cmd_esrgan cfg script_dir e p) out res
         \<notin> set (events r @ deferred_events r)"
  proof (intro allI notI)
    fix e p out res
    assume "Run (cmd_esrgan cfg script_dir e p) out res \<in> set (events r @ deferred_events r)"
    then have "hd (cmd_esrgan cfg script_dir e p) = S ''ffmpeg''"
      unfolding r
      by (auto simp: prepend_def too_few_frames_def extraction_phase_def Let_def
          cmd_extract_def cmd_placeholder_def split: if_splits)
    with cmd_esrgan_not_ffmpeg show False by blast
  qed
  have b: "placeholder_result env = Completed \<longrightarrow>
        result r = SegmentPath placeholder_segment \<and>
        events r =
          extraction_phase env video_file start_time duration output_fps extraction_dir
            processed_dir
          @ [Run [S ''ffmpeg'', S ''-hide_banner'', S ''-loglevel'', S ''error'', S ''-y'',
                  S ''-f'', S ''lavfi'', S ''-i'', Lavfi duration, S ''-r'', I output_fps,
                  S ''-c:v'', S ''libx264'', S ''-pix_fmt'', S ''yuv420p'',
                  S placeholder_segment]
               placeholder_segment Completed,
             Rmtree extraction_dir,
             Rmtree processed_dir,
             UpdateProgress (length (extracted_frames env))]"
    unfolding r by (simp add: prepend_def too_few_frames_def Let_def cmd_placeholder_def assms(5))
  have c: "placeholder_result env \<noteq> Completed \<longrightarrow>
        result r = NoSegment \<and>
        events r =
          extraction_phase env video_file start_time duration output_fps extraction_dir
            processed_dir
          @ [Run (cmd_placeholder duration output_fps placeholder_segment)
               placeholder_segment (placeholder_result env)]"
    unfolding r by (simp add: prepend_def too_few_frames_def Let_def assms(5))
  have d: "deferred_events r = []"
    unfolding r by (simp add: prepend_def too_few_frames_def Let_def)
  from a b c d show ?thesis by (intro conjI)
qed

theorem C3_too_few_frames_placeholder_witness:
  "length (extracted_frames env_one_frame) < 2 \<and>
   result (process_batch default_config env_one_frame ''/tmp'' ''/in/v.mp4'' 0 0 20 30 ''/app'')
     = SegmentPath ''/tmp/v_batch_0_7_placeholder.mp4'' \<and>
   events (process_batch default_config env_one_frame ''/tmp'' ''/in/v.mp4'' 0 0 20 30 ''/app'')
     = [Makedirs ''/tmp/v_batch_0_7_extraction'',
        Makedirs ''/tmp/v_batch_0_7_processed'',
        Run [S ''ffmpeg'', S ''-hide_banner'', S ''-loglevel'', S ''error'',
             S ''-ss'', R 0, S ''-t'', R 20, S ''-y'', S ''-i'', S ''/in/v.mp4'',
             S ''-r'', I 30, S ''/tmp/v_batch_0_7_extraction/frame_%06d.png'']
          ''/tmp/v_batch_0_7_extraction'' Completed,
        Sleep 2,
        Run [S ''ffmpeg'', S ''-hide_banner'', S ''-loglevel'', S ''error'', S ''-y'',
             S ''-f'', S ''lavfi'', S ''-i'', Lavfi 20, S ''-r'', I 30,
             S ''-c:v'', S ''libx264'', S ''-pix_fmt'', S ''yuv420p'',
             S ''/tmp/v_batch_0_7_placeholder.mp4'']
          ''/tmp/v_batch_0_7_placeholder.mp4'' Completed,
        Rmtree ''/tmp/v_batch_0_7_extraction'',
        Rmtree ''/tmp/v_batch_0_7_processed'',
        UpdateProgress 1]"
proof -
  have l: "length (extracted_frames env_one_frame) < 2"
    by (simp add: env_one_frame_def)
  have n: "now env_one_frame = 7" "placeholder_result env_one_frame = Completed"
    "extract_result env_one_frame = Completed" "length (extracted_frames env_one_frame) = 1"
    by (simp_all add: env_one_frame_def)
  have p: "path_join ''/tmp'' (''v_batch_0_7'' @ ''_extraction'') = ''/tmp/v_batch_0_7_extraction''"
    "path_join ''/tmp'' (''v_batch_0_7'' @ ''_processed'') = ''/tmp/v_batch_0_7_processed''"
    "path_join ''/tmp'' (''v_batch_0_7'' @ ''_placeholder.mp4'') = ''/tmp/v_batch_0_7_placeholder.mp4''"
    "path_join ''/tmp/v_batch_0_7_extraction'' ''frame_%06d.png''
       = ''/tmp/v_batch_0_7_extraction/frame_%06d.png''"
    by (simp_all add: path_join_def)
  note T = C3_too_few_frames_placeholder[where env = env_one_frame and cfg = default_config
      and temp_dir = "''/tmp''" and video_file = "''/in/v.mp4''" and batch_index = 0
      and start_time = 0 and duration = 20 and output_fps = 30 and script_dir = "''/app''",
      OF l refl refl refl refl refl, unfolded n batch_id_example p]
  from T[THEN conjunct2, THEN conjunct1] l show ?thesis
    by (simp add: extraction_phase_def cmd_extract_def n p path_join_def)
qed

text \<open>
  Claim C3 as it was stated, "always returns a placeholder segment", fails when the
  synthesis of the placeholder fails: with no extracted frame and a failing synthesis the
  batch returns \<^verbatim>\<open>None\<close>, deletes nothing and reports nothing.
\<close>

theorem C3_placeholder_fails_no_segment:
  "length (extracted_frames env_no_frames) < 2 \<and>
   result (process_batch default_config env_no_frames ''/tmp'' ''/in/v.mp4'' 0 0 20 30 ''/app'')
     = NoSegment \<and>
   events (process_batch default_config env_no_frames ''/tmp'' ''/in/v.mp4'' 0 0 20 30 ''/app'')
     = [Makedirs ''/tmp/v_batch_0_7_extraction'',
        Makedirs ''/tmp/v_batch_0_7_processed'',
        Run [S ''ffmpeg'', S ''-hide_banner'', S ''-loglevel'', S ''error'',
             S ''-ss'', R 0, S ''-t'', R 20, S ''-y'', S ''-i'', S ''/in/v.mp4'',
             S ''-r'', I 30, S ''/tmp/v_batch_0_7_extraction/frame_%06d.png'']
          ''/tmp/v_batch_0_7_extraction'' NonZeroExit,
        Sleep 2,
        Run [S ''ffmpeg'', S ''-hide_banner'', S ''-loglevel'', S ''error'', S ''-y'',
             S ''-f'', S ''lavfi'', S ''-i'', Lavfi 20, S ''-r'', I 30,
             S ''-c:v'', S ''libx264'', S ''-pix_fmt'', S ''yuv420p'',
             S ''/tmp/v_batch_0_7_placeholder.mp4'']
          ''/tmp/v_batch_0_7_placeholder.mp4'' NonZeroExit]"
proof -
  have l: "length (extracted_frames env_no_frames) < 2"
    by (simp add: env_no_frames_def)
  have n: "now env_no_frames = 7" "placeholder_result env_no_frames = NonZeroExit"
    "extract_result env_no_frames = NonZeroExit"
    by (simp_all add: env_no_frames_def)
  have p: "path_join ''/tmp'' (''v_batch_0_7'' @ ''_extraction'') = ''/tmp/v_batch_0_7_extraction''"
    "path_join ''/tmp'' (''v_batch_0_7'' @ ''_processed'') = ''/tmp/v_batch_0_7_processed''"
    "path_join ''/tmp'' (''v_batch_0_7'' @ ''_placeholder.mp4'') = ''/tmp/v_batch_0_7_placeholder.mp4''"
    "path_join ''/tmp/v_batch_0_7_extraction'' ''frame_%06d.png''
       = ''/tmp/v_batch_0_7_extraction/frame_%06d.png''"
    by (simp_all add: path_join_def)
  show ?thesis
    unfolding process_batch_too_few[OF l] n batch_id_example p
    by (simp add: l prepend_def too_few_frames_def Let_def extraction_phase_def cmd_extract_def
        cmd_placeholder_def n p path_join_def)
qed

end
